theory Spec2Isabelle
  imports Main
begin

section \<open>Python values\<close>

text \<open>
  The keyword arguments of the query builder are dynamically typed.  The fragment of
  Python values modelled here: \<open>None\<close>, booleans, integers, strings, lists and
  dictionaries with string keys.  A dictionary is an association list in insertion
  order (the order in which Python iterates it); keyword arguments are such a
  dictionary.  A character is read as the code point of the same number (0 to 255).
\<close>

datatype pyval =
    PNone
  | PBool bool
  | PInt int
  | PStr string
  | PList "pyval list"
  | PDict "(string \<times> pyval) list"

type_synonym kwargs = "(string \<times> pyval) list"

text \<open>Truth value testing, as \<open>not x\<close> and \<open>if x\<close> use it.\<close>

fun truthy :: "pyval \<Rightarrow> bool" where
  "truthy PNone = False"
| "truthy (PBool b) = b"
| "truthy (PInt i) = (i \<noteq> 0)"
| "truthy (PStr s) = (s \<noteq> [])"
| "truthy (PList xs) = (xs \<noteq> [])"
| "truthy (PDict d) = (d \<noteq> [])"

text \<open>\<open>isinstance(x, dict)\<close>.\<close>

fun is_dict :: "pyval \<Rightarrow> bool" where
  "is_dict (PDict d) = True"
| "is_dict v = False"

text \<open>\<open>d.items()\<close> of a value known to be a dictionary.\<close>

fun items :: "pyval \<Rightarrow> (string \<times> pyval) list" where
  "items (PDict d) = d"
| "items v = []"

text \<open>
  \<open>kwargs.pop(key, default)\<close>: the value stored under the key (the default when the
  key is absent) and the dictionary without the key.
\<close>

definition pop :: "string \<Rightarrow> pyval \<Rightarrow> kwargs \<Rightarrow> pyval \<times> kwargs" where
  "pop key dflt kw =
     (case map_of kw key of
        None \<Rightarrow> (dflt, kw)
      | Some v \<Rightarrow> (v, filter (\<lambda>kv. fst kv \<noteq> key) kw))"

subsection \<open>Formatting\<close>

text \<open>\<open>sep.join(xs)\<close> for a list of strings.\<close>

fun str_join :: "string \<Rightarrow> string list \<Rightarrow> string" where
  "str_join sep [] = []"
| "str_join sep [x] = x"
| "str_join sep (x # y # ys) = x @ sep @ str_join sep (y # ys)"

text \<open>Decimal digits of a natural number.\<close>

fun digits :: "nat \<Rightarrow> string" where
  "digits n =
     (if n < 10 then [char_of (48 + n)]
      else digits (n div 10) @ [char_of (48 + n mod 10)])"

declare digits.simps [simp del]

definition hex_digit :: "nat \<Rightarrow> char" where
  "hex_digit n = (if n < 10 then char_of (48 + n) else char_of (87 + n))"

text \<open>
  \<open>repr\<close> of a string: single quotes, unless the string has a single quote and no
  double quote; the quote and the backslash are escaped, tab, newline and carriage
  return are written \<open>\\t\<close>, \<open>\\n\<close>, \<open>\\r\<close>, and the other code points that are
  not printable are written \<open>\\xhh\<close>.
\<close>

definition repr_quote :: "string \<Rightarrow> char" where
  "repr_quote s = (if CHR 0x27 \<in> set s \<and> CHR 0x22 \<notin> set s then CHR 0x22 else CHR 0x27)"

definition repr_char :: "char \<Rightarrow> char \<Rightarrow> string" where
  "repr_char q c =
     (if c = q \<or> c = CHR 0x5C then [CHR 0x5C, c]
      else if c = CHR 0x09 then [CHR 0x5C, CHR ''t'']
      else if c = CHR 0x0A then [CHR 0x5C, CHR ''n'']
      else if c = CHR 0x0D then [CHR 0x5C, CHR ''r'']
      else let n = (of_char c :: nat) in
        if n < 32 \<or> n = 127 \<or> (128 \<le> n \<and> n \<le> 160) \<or> n = 173
        then [CHR 0x5C, CHR ''x'', hex_digit (n div 16), hex_digit (n mod 16)]
        else [c])"

definition repr_str :: "string \<Rightarrow> string" where
  "repr_str s = (let q = repr_quote s in [q] @ concat (map (repr_char q) s) @ [q])"

fun py_repr :: "pyval \<Rightarrow> string" where
  "py_repr PNone = ''None''"
| "py_repr (PBool b) = (if b then ''True'' else ''False'')"
| "py_repr (PInt i) = (if i < 0 then ''-'' @ digits (nat (- i)) else digits (nat i))"
| "py_repr (PStr s) = repr_str s"
| "py_repr (PList xs) = ''['' @ str_join '', '' (map py_repr xs) @ '']''"
| "py_repr (PDict d) =
     ''{'' @ str_join '', '' (map (\<lambda>kv. repr_str (fst kv) @ '': '' @ py_repr (snd kv)) d) @ ''}''"

text \<open>What an f-string substitutes for \<open>{x}\<close>: \<open>str(x)\<close>.\<close>

fun py_str :: "pyval \<Rightarrow> string" where
  "py_str (PStr s) = s"
| "py_str v = py_repr v"

section \<open>The store\<close>

text \<open>
  The connection and its cursor belong to the \<open>sqlite3\<close> package, which is not part
  of the repository: the package is a parameter of the model.  A value of type
  \<open>'db\<close> is the state of the connection with its cursor, \<open>'x\<close> is the type of
  the exceptions the package raises (subclasses of \<open>sqlite3.Error\<close>, none of which
  is an \<open>IndexError\<close> or a \<open>ValueError\<close>).  Executing a statement may raise;
  \<open>fetchall\<close>, \<open>rollback\<close> and \<open>commit\<close> are taken to return.
\<close>

record ('db, 'x) driver =
  cur_execute :: "'db \<Rightarrow> string \<Rightarrow> pyval list \<Rightarrow> 'x option \<times> 'db"
  cur_fetchall :: "'db \<Rightarrow> pyval list list \<times> 'db"
  cur_lastrowid :: "'db \<Rightarrow> pyval"
  cur_rowcount :: "'db \<Rightarrow> int"
  conn_rollback :: "'db \<Rightarrow> 'db"
  conn_commit :: "'db \<Rightarrow> 'db"

text \<open>The calls made on the cursor and on the connection, in the order they are made.\<close>

datatype event =
    Execute string "pyval list"
  | Fetchall
  | Rollback
  | Commit

text \<open>
  An \<open>SQLiteManager\<close>: its connection (with the cursor), and the calls it has made
  so far.
\<close>

record 'db manager =
  conn :: 'db
  calls :: "event list"

section \<open>Exceptions\<close>

text \<open>
  The four operations raise \<open>ValueError\<close> with five different messages; the
  message is the only thing that tells them apart, so it is part of the value:
  \<^item> \<open>TableRequired f\<close>: "O argumento 'table' e obrigatorio para a funcao f."
  \<^item> \<open>NoInsertData\<close>: "Nenhum dado fornecido para insercao. (Ex: nome='Alice')"
  \<^item> \<open>DataRequired\<close>: "O argumento 'data' (um dict) e obrigatorio para informar o que
    deve ser alterado."
  \<^item> \<open>UpdateWithoutWhere\<close>: "UPDATE sem clausula WHERE nao e permitido por seguranca.
    Forneca ao menos um filtro (ex: id=1)."
  \<^item> \<open>DeleteWithoutWhere\<close>: "DELETE sem clausula WHERE nao e permitido por seguranca.
    Forneca ao menos um filtro (ex: id=1)."
\<close>

datatype operation = Select | Insert | Update | Delete

datatype message =
    TableRequired operation
  | NoInsertData
  | DataRequired
  | UpdateWithoutWhere
  | DeleteWithoutWhere

datatype 'x exn =
    ValueError message
  | TypeError
  | IndexError
  | ValidationError
  | HTTPException nat string
  | StoreError 'x

section \<open>SQLiteManager\<close>

text \<open>
  \<open>__exit__(exc_type, exc_value, traceback)\<close>: the argument is the exception that
  left the block, if one did.
\<close>

definition SQLiteManager_exit :: "('db, 'x) driver \<Rightarrow> 'x exn option \<Rightarrow> 'db manager \<Rightarrow> 'db manager" where
  "SQLiteManager_exit drv exc_type m =
     (let m1 = (if exc_type \<noteq> None
                then m\<lparr>conn := conn_rollback drv (conn m), calls := calls m @ [Rollback]\<rparr>
                else m)
      in m1\<lparr>conn := conn_commit drv (conn m1), calls := calls m1 @ [Commit]\<rparr>)"

text \<open>
  \<open>", ".join(options)\<close>: the argument is iterated; a list of strings gives its
  elements, a string its characters, a dictionary its keys.  Anything else (a value
  that is not iterable, a list with an element that is not a string) is a
  \<open>TypeError\<close>.
\<close>

fun str_of :: "pyval \<Rightarrow> string option" where
  "str_of (PStr s) = Some s"
| "str_of v = None"

fun py_join :: "string \<Rightarrow> pyval \<Rightarrow> string option" where
  "py_join sep (PList xs) =
     (if list_all (\<lambda>x. str_of x \<noteq> None) xs
      then Some (str_join sep (map py_str xs)) else None)"
| "py_join sep (PStr s) = Some (str_join sep (map (\<lambda>c. [c]) s))"
| "py_join sep (PDict d) = Some (str_join sep (map fst d))"
| "py_join sep v = None"

definition SQLiteManager_select ::
  "('db, 'x) driver \<Rightarrow> kwargs \<Rightarrow> 'db manager \<Rightarrow> ('x exn + pyval list list) \<times> 'db manager" where
  "SQLiteManager_select drv kwargs m =
     (let (table, kwargs1) = pop ''table'' PNone kwargs;
          (options, kwargs2) = pop ''options'' (PList [PStr ''*'']) kwargs1
      in if \<not> truthy table then (Inl (ValueError (TableRequired Select)), m)
         else case py_join '', '' options of
           None \<Rightarrow> (Inl TypeError, m)
         | Some cols \<Rightarrow>
             let query0 = ''SELECT '' @ cols @ '' FROM '' @ py_str table;
                 where_clauses = map (\<lambda>kv. fst kv @ '' = ?'') kwargs2;
                 params = map snd kwargs2;
                 query = (if where_clauses \<noteq> []
                          then query0 @ '' WHERE '' @ str_join '' AND '' where_clauses
                          else query0)
             in (case cur_execute drv (conn m) query params of
                   (Some e, db1) \<Rightarrow>
                     (Inl (StoreError e),
                      m\<lparr>conn := db1, calls := calls m @ [Execute query params]\<rparr>)
                 | (None, db1) \<Rightarrow>
                     (let (rows, db2) = cur_fetchall drv db1
                      in (Inr rows,
                          m\<lparr>conn := db2,
                            calls := calls m @ [Execute query params, Fetchall]\<rparr>))))"

definition SQLiteManager_insert ::
  "('db, 'x) driver \<Rightarrow> kwargs \<Rightarrow> 'db manager \<Rightarrow> ('x exn + pyval) \<times> 'db manager" where
  "SQLiteManager_insert drv kwargs m =
     (let (table, kwargs1) = pop ''table'' PNone kwargs
      in if \<not> truthy table then (Inl (ValueError (TableRequired Insert)), m)
         else if kwargs1 = [] then (Inl (ValueError NoInsertData), m)
         else
           let columns = map fst kwargs1;
               values = map snd kwargs1;
               cols_sql = str_join '', '' columns;
               placeholders_sql = str_join '', '' (replicate (length values) ''?'');
               query = ''INSERT INTO '' @ py_str table @ '' ('' @ cols_sql @ '') VALUES (''
                         @ placeholders_sql @ '')''
           in case cur_execute drv (conn m) query values of
                (None, db1) \<Rightarrow>
                  (Inr (cur_lastrowid drv db1),
                   m\<lparr>conn := db1, calls := calls m @ [Execute query values]\<rparr>)
              | (Some e, db1) \<Rightarrow>
                  (Inl (StoreError e),
                   m\<lparr>conn := conn_rollback drv db1,
                     calls := calls m @ [Execute query values, Rollback]\<rparr>))"

definition SQLiteManager_update ::
  "('db, 'x) driver \<Rightarrow> kwargs \<Rightarrow> 'db manager \<Rightarrow> ('x exn + int) \<times> 'db manager" where
  "SQLiteManager_update drv kwargs m =
     (let (table, kwargs1) = pop ''table'' PNone kwargs;
          (data_to_set, kwargs2) = pop ''data'' PNone kwargs1
      in if \<not> truthy table then (Inl (ValueError (TableRequired Update)), m)
         else if \<not> truthy data_to_set \<or> \<not> is_dict data_to_set
           then (Inl (ValueError DataRequired), m)
         else if kwargs2 = [] then (Inl (ValueError UpdateWithoutWhere), m)
         else
           let set_clauses = map (\<lambda>kv. fst kv @ '' = ?'') (items data_to_set);
               set_sql = str_join '', '' set_clauses;
               where_clauses = map (\<lambda>kv. fst kv @ '' = ?'') kwargs2;
               where_sql = str_join '' AND '' where_clauses;
               params = map snd (items data_to_set) @ map snd kwargs2;
               query = ''UPDATE '' @ py_str table @ '' SET '' @ set_sql @ '' WHERE '' @ where_sql
           in case cur_execute drv (conn m) query params of
                (None, db1) \<Rightarrow>
                  (Inr (cur_rowcount drv db1),
                   m\<lparr>conn := db1, calls := calls m @ [Execute query params]\<rparr>)
              | (Some e, db1) \<Rightarrow>
                  (Inl (StoreError e),
                   m\<lparr>conn := conn_rollback drv db1,
                     calls := calls m @ [Execute query params, Rollback]\<rparr>))"

definition SQLiteManager_delete ::
  "('db, 'x) driver \<Rightarrow> kwargs \<Rightarrow> 'db manager \<Rightarrow> ('x exn + int) \<times> 'db manager" where
  "SQLiteManager_delete drv kwargs m =
     (let (table, kwargs1) = pop ''table'' PNone kwargs
      in if \<not> truthy table then (Inl (ValueError (TableRequired Delete)), m)
         else if kwargs1 = [] then (Inl (ValueError DeleteWithoutWhere), m)
         else
           let where_clauses = map (\<lambda>kv. fst kv @ '' = ?'') kwargs1;
               where_sql = str_join '' AND '' where_clauses;
               params = map snd kwargs1;
               query = ''DELETE FROM '' @ py_str table @ '' WHERE '' @ where_sql
           in case cur_execute drv (conn m) query params of
                (None, db1) \<Rightarrow>
                  (Inr (cur_rowcount drv db1),
                   m\<lparr>conn := db1, calls := calls m @ [Execute query params]\<rparr>)
              | (Some e, db1) \<Rightarrow>
                  (Inl (StoreError e),
                   m\<lparr>conn := conn_rollback drv db1,
                     calls := calls m @ [Execute query params, Rollback]\<rparr>))"

section \<open>Resource endpoints\<close>

text \<open>
  The typed records of \<open>models.py\<close>.  Their constructors validate the fields with
  the \<open>pydantic\<close> package, which is not part of the repository: what it accepts
  for an \<open>int\<close> field and for a \<open>str\<close> field is a parameter.
\<close>

record User =
  User_id :: int
  User_name :: string
  User_email :: string

record Password =
  Password_id :: int
  Password_user_id :: int
  Password_password_hash :: string

record validator =
  int_field :: "pyval \<Rightarrow> int option"
  str_field :: "pyval \<Rightarrow> string option"

definition User_init :: "validator \<Rightarrow> pyval \<Rightarrow> pyval \<Rightarrow> pyval \<Rightarrow> 'x exn + User" where
  "User_init vld id_arg name email =
     (case (int_field vld id_arg, str_field vld name, str_field vld email) of
        (Some i, Some n, Some e) \<Rightarrow> Inr \<lparr>User_id = i, User_name = n, User_email = e\<rparr>
      | _ \<Rightarrow> Inl ValidationError)"

definition Password_init :: "validator \<Rightarrow> pyval \<Rightarrow> pyval \<Rightarrow> pyval \<Rightarrow> 'x exn + Password" where
  "Password_init vld id_arg password_hash user_id =
     (case (int_field vld id_arg, str_field vld password_hash, int_field vld user_id) of
        (Some i, Some h, Some u) \<Rightarrow>
          Inr \<lparr>Password_id = i, Password_user_id = u, Password_password_hash = h\<rparr>
      | _ \<Rightarrow> Inl ValidationError)"

text \<open>\<open>result[i]\<close> on a row (a tuple), for an index that is not negative.\<close>

definition tuple_get :: "pyval list \<Rightarrow> nat \<Rightarrow> 'x exn + pyval" where
  "tuple_get row i = (if i < length row then Inr (row ! i) else Inl IndexError)"

text \<open>
  \<open>try: ... except IndexError: raise h\<close>, applied to the exception that left the
  \<open>try\<close> block.
\<close>

fun except_IndexError :: "'x exn \<Rightarrow> 'x exn \<Rightarrow> 'x exn" where
  "except_IndexError h IndexError = h"
| "except_IndexError h e = e"

text \<open>
  The two get-by-id handlers.  The manager \<open>db\<close> is the one that
  \<open>db_manager(database)\<close> has just built; the \<open>with\<close> block calls
  \<open>__exit__\<close> on it with the exception that leaves the block, if any.
\<close>

definition get_user ::
  "('db, 'x) driver \<Rightarrow> validator \<Rightarrow> 'db manager \<Rightarrow> int \<Rightarrow> ('x exn + User) \<times> 'db manager" where
  "get_user drv vld db user_id =
     (let (r, db1) =
        (case SQLiteManager_select drv [(''table'', PStr ''users''), (''id'', PInt user_id)] db of
           (Inl e, db1) \<Rightarrow>
             (Inl (except_IndexError (HTTPException 404 ''User not found'') e), db1)
         | (Inr [], db1) \<Rightarrow> (Inl (HTTPException 404 ''User not found''), db1)
         | (Inr (result # rest), db1) \<Rightarrow>
             (case (tuple_get result 0 :: 'x exn + pyval,
                   tuple_get result 1 :: 'x exn + pyval,
                   tuple_get result 2 :: 'x exn + pyval) of
                (Inr a, Inr b, Inr c) \<Rightarrow> (User_init vld a b c, db1)
              | _ \<Rightarrow> (Inl IndexError, db1)))
      in (r, SQLiteManager_exit drv (case r of Inl e \<Rightarrow> Some e | Inr u \<Rightarrow> None) db1))"

definition get_password ::
  "('db, 'x) driver \<Rightarrow> validator \<Rightarrow> 'db manager \<Rightarrow> int \<Rightarrow> ('x exn + Password) \<times> 'db manager" where
  "get_password drv vld db password_id =
     (let (r, db1) =
        (case SQLiteManager_select drv
                [(''table'', PStr ''passwords''), (''id'', PInt password_id)] db of
           (Inl e, db1) \<Rightarrow>
             (Inl (except_IndexError (HTTPException 404 ''password not found'') e), db1)
         | (Inr [], db1) \<Rightarrow> (Inl (HTTPException 404 ''password not found''), db1)
         | (Inr (result # rest), db1) \<Rightarrow>
             (case (tuple_get result 0 :: 'x exn + pyval,
                   tuple_get result 1 :: 'x exn + pyval,
                   tuple_get result 2 :: 'x exn + pyval) of
                (Inr a, Inr b, Inr c) \<Rightarrow> (Password_init vld a b c, db1)
              | _ \<Rightarrow> (Inl IndexError, db1)))
      in (r, SQLiteManager_exit drv (case r of Inl e \<Rightarrow> Some e | Inr u \<Rightarrow> None) db1))"

section \<open>Vocabulary of the properties\<close>

text \<open>
  The keyword arguments that are left once the control arguments have been popped:
  the filters of \<open>select\<close>, \<open>update\<close> and \<open>delete\<close>, the data of
  \<open>insert\<close>.
\<close>

definition remaining :: "string list \<Rightarrow> kwargs \<Rightarrow> kwargs" where
  "remaining control kw = filter (\<lambda>kv. fst kv \<notin> set control) kw"

text \<open>
  The calls a manager has made between two of its states, the statements executed in
  a sequence of calls with their bound parameters, and their texts alone.
\<close>

definition new_calls :: "'db manager \<Rightarrow> 'db manager \<Rightarrow> event list" where
  "new_calls m m' = drop (length (calls m)) (calls m')"

fun executed :: "event list \<Rightarrow> (string \<times> pyval list) list" where
  "executed [] = []"
| "executed (Execute q ps # es) = (q, ps) # executed es"
| "executed (e # es) = executed es"

definition statements :: "event list \<Rightarrow> string list" where
  "statements es = map fst (executed es)"

text \<open>
  A driver that answers every call the same way: \<open>execute\<close> raises \<open>exc\<close> if it
  is given and counts the statements it has seen, \<open>fetchall\<close> returns \<open>rows\<close>,
  \<open>rollback\<close> resets the count.  It instantiates the theorems below on concrete
  calls.
\<close>

definition scripted :: "string option \<Rightarrow> pyval list list \<Rightarrow> (nat, string) driver" where
  "scripted exc rows =
     \<lparr>cur_execute = (\<lambda>db q ps. (exc, Suc db)),
      cur_fetchall = (\<lambda>db. (rows, db)),
      cur_lastrowid = (\<lambda>db. PInt (int db)),
      cur_rowcount = (\<lambda>db. int (length rows)),
      conn_rollback = (\<lambda>db. 0),
      conn_commit = (\<lambda>db. db)\<rparr>"

definition fresh :: "nat manager" where
  "fresh = \<lparr>conn = 0, calls = []\<rparr>"

text \<open>A validator that accepts an integer for an \<open>int\<close> field and a string for a
  \<open>str\<close> field, and nothing else.\<close>

fun strict_int :: "pyval \<Rightarrow> int option" where
  "strict_int (PInt i) = Some i"
| "strict_int v = None"

definition strict :: validator where
  "strict = \<lparr>int_field = strict_int, str_field = str_of\<rparr>"

section \<open>The store, modelled\<close>

text \<open>
  Modelled from the spec: the relational store behind the cursor (the SQLite engine
  that the \<open>sqlite3\<close> package drives), which is not part of the repository.  From
  the spec: a table has named columns and its rows hold one value per column, in the
  order of the columns (sections 3 and 6); the filters of a \<open>SELECT\<close> are equality
  constraints on columns, combined with \<open>AND\<close>, and the statement returns the
  sequence of the matching rows, possibly empty (section 4.2, glossary); an
  \<open>INSERT\<close> adds one row and generates its identifier, a positive integer that
  \<open>lastrowid\<close> reports (sections 4.2 and 8).  A table with a column \<open>id\<close> is keyed
  by it: a new row gets there an identifier above every identifier of the table.

  The store reads the text of a statement word by word, as the statements of the
  query builder are written, and takes table and column names as they stand.  Values
  are stored and compared as they are: the conversions of \<open>sqlite3\<close> and the
  comparison rules of SQL for \<open>NULL\<close> are not part of the model.  Of the four
  statements, \<open>SELECT\<close> and \<open>INSERT\<close> are interpreted; any other text is answered
  with an error.
\<close>

record table =
  tbl_columns :: "string list"
  tbl_rows :: "pyval list list"

record store =
  st_tables :: "string \<Rightarrow> table option"
  st_committed :: "string \<Rightarrow> table option"
  st_result :: "pyval list list"
  st_lastrowid :: pyval
  st_rowcount :: int

text \<open>Modelled from the spec: the value a row holds in a column.\<close>

definition cell :: "table \<Rightarrow> pyval list \<Rightarrow> string \<Rightarrow> pyval option" where
  "cell tb r k = map_of (zip (tbl_columns tb) r) k"

text \<open>Modelled from the spec: a row matches when every constraint holds (\<open>AND\<close>).\<close>

definition matches :: "table \<Rightarrow> (string \<times> pyval) list \<Rightarrow> pyval list \<Rightarrow> bool" where
  "matches tb conds r = list_all (\<lambda>kv. cell tb r (fst kv) = Some (snd kv)) conds"

text \<open>Modelled from the spec: the projection of a row on a column list; \<open>*\<close> is the
  whole row.\<close>

definition project :: "table \<Rightarrow> string list \<Rightarrow> pyval list \<Rightarrow> pyval list" where
  "project tb cols r =
     (if cols = [''*''] then r
      else map (\<lambda>c. case cell tb r c of None \<Rightarrow> PNone | Some v \<Rightarrow> v) cols)"

text \<open>Modelled from the spec: the words of the text of a statement, which the query
  builder separates by single spaces (\<open>text.split(' ')\<close>).\<close>

fun split_on :: "char \<Rightarrow> string \<Rightarrow> string list" where
  "split_on c [] = [[]]"
| "split_on c (x # xs) =
     (if x = c then [] # split_on c xs
      else case split_on c xs of [] \<Rightarrow> [[x]] | w # ws \<Rightarrow> (x # w) # ws)"

text \<open>Modelled from the spec: the statements that are interpreted.  A \<open>SELECT\<close> has
  a column list, a table and the columns of its filters; an \<open>INSERT\<close> has a table,
  a column list and a number of placeholders.\<close>

datatype statement =
    SelectFrom "string list" string "string list"
  | InsertInto string "string list" nat

text \<open>Modelled from the spec: the columns of a \<open>WHERE\<close> clause, from its words
  \<open>k = ? AND k' = ? ...\<close>.\<close>

fun parse_conds :: "string list \<Rightarrow> string list option" where
  "parse_conds (k # e # p # rest) =
     (if e = ''='' \<and> p = ''?''
      then (case rest of
              [] \<Rightarrow> Some [k]
            | a # ws \<Rightarrow> if a = ''AND'' then map_option ((#) k) (parse_conds ws) else None)
      else None)"
| "parse_conds ws = None"

text \<open>Modelled from the spec: the names in the words of a column list, \<open>(a,\<close> \<open>b,\<close>
  \<open>c)\<close> or \<open>a,\<close> \<open>b\<close>.\<close>

definition column_names :: "string list \<Rightarrow> string list" where
  "column_names ws = map (filter (\<lambda>ch. ch \<notin> set ''(),'')) ws"

text \<open>Modelled from the spec: the statement that a list of words writes, if it is one
  of the two.\<close>

definition parse :: "string list \<Rightarrow> statement option" where
  "parse ws =
     (case ws of
        [] \<Rightarrow> None
      | verb # ws1 \<Rightarrow>
          if verb = ''SELECT'' then
            (case dropWhile (\<lambda>w. w \<noteq> ''FROM'') ws1 of
               [] \<Rightarrow> None
             | [from] \<Rightarrow> None
             | [from, t] \<Rightarrow>
                 Some (SelectFrom (column_names (takeWhile (\<lambda>w. w \<noteq> ''FROM'') ws1)) t [])
             | from # t # wh # conds \<Rightarrow>
                 if wh = ''WHERE''
                 then map_option
                        (SelectFrom (column_names (takeWhile (\<lambda>w. w \<noteq> ''FROM'') ws1)) t)
                        (parse_conds conds)
                 else None)
          else if verb = ''INSERT'' then
            (case ws1 of
               into # t # rest \<Rightarrow>
                 if into = ''INTO'' then
                   (case dropWhile (\<lambda>w. w \<noteq> ''VALUES'') rest of
                      [] \<Rightarrow> None
                    | vals # marks \<Rightarrow>
                        Some (InsertInto t
                                (column_names (takeWhile (\<lambda>w. w \<noteq> ''VALUES'') rest))
                                (length marks)))
                 else None
             | _ \<Rightarrow> None)
          else None)"

text \<open>Modelled from the spec: \<open>SELECT cols FROM t WHERE k = ? AND ...\<close> with the bound
  values.  The matching rows become the result set of the cursor.\<close>

definition store_select ::
  "store \<Rightarrow> string list \<Rightarrow> string \<Rightarrow> string list \<Rightarrow> pyval list \<Rightarrow> string option \<times> store" where
  "store_select db cols t keys params =
     (case st_tables db t of
        None \<Rightarrow> (Some ''no such table'', db)
      | Some tb \<Rightarrow>
          if \<not> list_all (\<lambda>k. k \<in> set (tbl_columns tb))
                 (keys @ (if cols = [''*''] then [] else cols))
            then (Some ''no such column'', db)
          else if length keys \<noteq> length params
            then (Some ''Incorrect number of bindings supplied'', db)
          else (None,
                db\<lparr>st_result :=
                     map (project tb cols) (filter (matches tb (zip keys params)) (tbl_rows tb)),
                   st_rowcount := - 1\<rparr>))"

text \<open>Modelled from the spec: the identifier generated for a new row of a table keyed
  by \<open>id\<close>: one more than the largest identifier in the table.\<close>

fun id_of :: "pyval option \<Rightarrow> int" where
  "id_of (Some (PInt i)) = i"
| "id_of v = 0"

definition next_id :: "table \<Rightarrow> int" where
  "next_id tb = 1 + fold max (map (\<lambda>r. id_of (cell tb r ''id'')) (tbl_rows tb)) 0"

text \<open>Modelled from the spec: the row that an \<open>INSERT\<close> adds, and the store with
  the row added to a table.\<close>

definition new_row :: "table \<Rightarrow> (string \<Rightarrow> pyval option) \<Rightarrow> int \<Rightarrow> pyval list" where
  "new_row tb given rid =
     map (\<lambda>c. if c = ''id'' then PInt rid
              else case given c of None \<Rightarrow> PNone | Some v \<Rightarrow> v)
       (tbl_columns tb)"

definition with_row :: "store \<Rightarrow> string \<Rightarrow> table \<Rightarrow> pyval list \<Rightarrow> int \<Rightarrow> store" where
  "with_row db t tb row rid =
     db\<lparr>st_tables := fun_upd (st_tables db) t (Some (tb\<lparr>tbl_rows := tbl_rows tb @ [row]\<rparr>)),
        st_result := [], st_lastrowid := PInt rid, st_rowcount := 1\<rparr>"

text \<open>Modelled from the spec: \<open>INSERT INTO t (cols) VALUES (?, ...)\<close> with the bound
  values.  The new row holds the given values in their columns and \<open>NULL\<close> in the
  others; in a table keyed by \<open>id\<close> it gets the generated identifier, unless the
  statement gives an integer for \<open>id\<close>, which must not be in the table yet (a
  value given for \<open>id\<close> that is neither an integer nor \<open>NULL\<close> is refused).  In a
  table without the column the rows are numbered as they come.  \<open>lastrowid\<close>
  reports the identifier of the new row.\<close>

definition store_insert ::
  "store \<Rightarrow> string \<Rightarrow> string list \<Rightarrow> nat \<Rightarrow> pyval list \<Rightarrow> string option \<times> store" where
  "store_insert db t cols marks params =
     (case st_tables db t of
        None \<Rightarrow> (Some ''no such table'', db)
      | Some tb \<Rightarrow>
          if \<not> list_all (\<lambda>k. k \<in> set (tbl_columns tb)) cols
            then (Some ''no such column'', db)
          else if length cols \<noteq> marks \<or> marks \<noteq> length params
            then (Some ''Incorrect number of bindings supplied'', db)
          else
            let given = map_of (zip cols params);
                keyed = (''id'' \<in> set (tbl_columns tb));
                generated = (if keyed then next_id tb else int (length (tbl_rows tb)) + 1)
            in (case (if keyed then given ''id'' else None) of
                  Some (PInt i) \<Rightarrow>
                    (if list_ex (\<lambda>r. cell tb r ''id'' = Some (PInt i)) (tbl_rows tb)
                     then (Some ''UNIQUE constraint failed'', db)
                     else (None, with_row db t tb (new_row tb given i) i))
                | Some PNone \<Rightarrow> (None, with_row db t tb (new_row tb given generated) generated)
                | Some v \<Rightarrow> (Some ''datatype mismatch'', db)
                | None \<Rightarrow> (None, with_row db t tb (new_row tb given generated) generated)))"

text \<open>Modelled from the spec: the store as the driver of a manager.  \<open>fetchall\<close>
  hands out the result set, \<open>commit\<close> keeps the tables as they are and
  \<open>rollback\<close> returns to the tables of the last commit.\<close>

definition store_execute :: "store \<Rightarrow> string \<Rightarrow> pyval list \<Rightarrow> string option \<times> store" where
  "store_execute db q params =
     (case parse (split_on CHR '' '' q) of
        None \<Rightarrow> (Some ''statement not interpreted'', db)
      | Some (SelectFrom cols t keys) \<Rightarrow> store_select db cols t keys params
      | Some (InsertInto t cols marks) \<Rightarrow> store_insert db t cols marks params)"

definition sqlite :: "(store, string) driver" where
  "sqlite =
     \<lparr>cur_execute = store_execute,
      cur_fetchall = (\<lambda>db. (st_result db, db\<lparr>st_result := []\<rparr>)),
      cur_lastrowid = st_lastrowid,
      cur_rowcount = st_rowcount,
      conn_rollback = (\<lambda>db. db\<lparr>st_tables := st_committed db\<rparr>),
      conn_commit = (\<lambda>db. db\<lparr>st_committed := st_tables db\<rparr>)\<rparr>"

text \<open>A store with the tables \<open>tabs\<close>, all committed, and a manager just opened on it.\<close>

definition opened :: "(string \<Rightarrow> table option) \<Rightarrow> store manager" where
  "opened tabs =
     \<lparr>conn = \<lparr>st_tables = tabs, st_committed = tabs, st_result = [],
               st_lastrowid = PNone, st_rowcount = - 1\<rparr>,
      calls = []\<rparr>"

text \<open>
  The words of the statements that the query builder writes: of a \<open>WHERE\<close> clause
  on the columns \<open>ks\<close>, and of a list \<open>p c1, c2, ... s\<close> between an opening and
  a closing text.
\<close>

fun cond_words :: "string list \<Rightarrow> string list" where
  "cond_words [] = []"
| "cond_words [k] = [k, ''='', ''?'']"
| "cond_words (k # ks) = k # ''='' # ''?'' # ''AND'' # cond_words ks"

fun list_words :: "string \<Rightarrow> string list \<Rightarrow> string \<Rightarrow> string list" where
  "list_words p [] s = [p @ s]"
| "list_words p [c] s = [p @ c @ s]"
| "list_words p (c # cs) s = (p @ c @ '','') # list_words [] cs s"

text \<open>Two tables that instantiate the theorems on the modelled store: one keyed by
  \<open>id\<close>, one without the column.\<close>

definition demo_tables :: "string \<Rightarrow> table option" where
  "demo_tables =
     [''users'' \<mapsto>
        \<lparr>tbl_columns = [''id'', ''name'', ''email''],
         tbl_rows = [[PInt 1, PStr ''Alice'', PStr ''a@x.com''],
                     [PInt 2, PStr ''Bob'', PStr ''b@x.com''],
                     [PInt 3, PStr ''Alice'', PStr ''c@x.com'']]\<rparr>,
      ''notes'' \<mapsto> \<lparr>tbl_columns = [''body''], tbl_rows = []\<rparr>]"

section \<open>Popping control arguments\<close>

lemma fst_pop: "fst (pop key dflt kw) = (case map_of kw key of None \<Rightarrow> dflt | Some v \<Rightarrow> v)"
  by (simp add: pop_def split: option.split)

lemma filter_absent: "map_of kw key = None \<Longrightarrow> filter (\<lambda>kv. fst kv \<noteq> key) kw = kw"
  by (induction kw) (auto split: if_splits)

lemma snd_pop: "snd (pop key dflt kw) = remaining [key] kw"
  by (simp add: pop_def remaining_def filter_absent split: option.split)

lemma pop_eq: "pop key dflt kw = (case map_of kw key of None \<Rightarrow> dflt | Some v \<Rightarrow> v, remaining [key] kw)"
  by (metis fst_pop snd_pop prod.collapse)

lemma map_of_remaining: "key \<notin> set control \<Longrightarrow> map_of (remaining control kw) key = map_of kw key"
  by (induction kw) (auto simp: remaining_def)

lemma remaining_remaining: "remaining c2 (remaining c1 kw) = remaining (c1 @ c2) kw"
  by (induction kw) (auto simp: remaining_def)

lemma keys_remaining:
  "map fst kw1 = map fst kw2 \<Longrightarrow> map fst (remaining control kw1) = map fst (remaining control kw2)"
proof (induction kw1 arbitrary: kw2)
  case Nil
  then show ?case by (simp add: remaining_def)
next
  case (Cons a kw1)
  then obtain b kw2' where "kw2 = b # kw2'" by (cases kw2) auto
  with Cons show ?case by (auto simp: remaining_def)
qed

lemma new_calls_append [simp]:
  "new_calls m (m\<lparr>conn := db, calls := calls m @ es\<rparr>) = es"
  by (simp add: new_calls_def)

lemma new_calls_same [simp]: "new_calls m m = []"
  by (simp add: new_calls_def)

section \<open>What the operations do\<close>

lemma update_run:
  assumes "map_of kwargs ''table'' = Some table" and "truthy table"
    and "map_of kwargs ''data'' = Some (PDict d)" and "d \<noteq> []"
    and "remaining [''table'', ''data''] kwargs = filters" and "filters \<noteq> []"
  shows "SQLiteManager_update drv kwargs m =
     (let query = ''UPDATE '' @ py_str table @ '' SET ''
                    @ str_join '', '' (map (\<lambda>kv. fst kv @ '' = ?'') d)
                    @ '' WHERE '' @ str_join '' AND '' (map (\<lambda>kv. fst kv @ '' = ?'') filters);
          params = map snd d @ map snd filters
      in case cur_execute drv (conn m) query params of
           (None, db1) \<Rightarrow>
             (Inr (cur_rowcount drv db1),
              m\<lparr>conn := db1, calls := calls m @ [Execute query params]\<rparr>)
         | (Some e, db1) \<Rightarrow>
             (Inl (StoreError e),
              m\<lparr>conn := conn_rollback drv db1,
                calls := calls m @ [Execute query params, Rollback]\<rparr>))"
  using assms
  by (simp add: SQLiteManager_update_def pop_eq map_of_remaining remaining_remaining Let_def)

lemma update_refused:
  assumes "\<not> (truthy (fst (pop ''table'' PNone kwargs))
            \<and> truthy (fst (pop ''data'' PNone (snd (pop ''table'' PNone kwargs))))
            \<and> is_dict (fst (pop ''data'' PNone (snd (pop ''table'' PNone kwargs))))
            \<and> snd (pop ''data'' PNone (snd (pop ''table'' PNone kwargs))) \<noteq> [])"
  shows "snd (SQLiteManager_update drv kwargs m) = m"
  using assms
  by (auto simp add: SQLiteManager_update_def Let_def split_beta)

lemma insert_run:
  assumes "map_of kwargs ''table'' = Some table" and "truthy table"
    and "remaining [''table''] kwargs = data" and "data \<noteq> []"
  shows "SQLiteManager_insert drv kwargs m =
     (let query = ''INSERT INTO '' @ py_str table @ '' ('' @ str_join '', '' (map fst data)
                    @ '') VALUES ('' @ str_join '', '' (replicate (length data) ''?'') @ '')'';
          params = map snd data
      in case cur_execute drv (conn m) query params of
           (None, db1) \<Rightarrow>
             (Inr (cur_lastrowid drv db1),
              m\<lparr>conn := db1, calls := calls m @ [Execute query params]\<rparr>)
         | (Some e, db1) \<Rightarrow>
             (Inl (StoreError e),
              m\<lparr>conn := conn_rollback drv db1,
                calls := calls m @ [Execute query params, Rollback]\<rparr>))"
  using assms
  by (simp add: SQLiteManager_insert_def pop_eq Let_def split: prod.split option.split)

lemma delete_run:
  assumes "map_of kwargs ''table'' = Some table" and "truthy table"
    and "remaining [''table''] kwargs = filters" and "filters \<noteq> []"
  shows "SQLiteManager_delete drv kwargs m =
     (let query = ''DELETE FROM '' @ py_str table @ '' WHERE ''
                    @ str_join '' AND '' (map (\<lambda>kv. fst kv @ '' = ?'') filters);
          params = map snd filters
      in case cur_execute drv (conn m) query params of
           (None, db1) \<Rightarrow>
             (Inr (cur_rowcount drv db1),
              m\<lparr>conn := db1, calls := calls m @ [Execute query params]\<rparr>)
         | (Some e, db1) \<Rightarrow>
             (Inl (StoreError e),
              m\<lparr>conn := conn_rollback drv db1,
                calls := calls m @ [Execute query params, Rollback]\<rparr>))"
  using assms
  by (simp add: SQLiteManager_delete_def pop_eq Let_def)




lemma select_never_IndexError:
  "fst (SQLiteManager_select drv kwargs m) \<noteq> Inl IndexError
   \<and> (\<forall>code detail. fst (SQLiteManager_select drv kwargs m) \<noteq> Inl (HTTPException code detail))"
  by (auto simp add: SQLiteManager_select_def Let_def split_beta split: option.splits)

lemma select_refused:
  assumes "\<not> truthy (fst (pop ''table'' PNone kwargs))
         \<or> py_join '', '' (fst (pop ''options'' (PList [PStr ''*'']) (snd (pop ''table'' PNone kwargs))))
             = None"
  shows "snd (SQLiteManager_select drv kwargs m) = m"
  using assms by (auto simp add: SQLiteManager_select_def Let_def split_beta)

lemma select_run:
  assumes "truthy (fst (pop ''table'' PNone kwargs))"
    and "py_join '', '' (fst (pop ''options'' (PList [PStr ''*'']) (snd (pop ''table'' PNone kwargs))))
           = Some cols"
  shows "executed (new_calls m (snd (SQLiteManager_select drv kwargs m))) =
     [(''SELECT '' @ cols @ '' FROM '' @ py_str (fst (pop ''table'' PNone kwargs))
         @ (if remaining [''table'', ''options''] kwargs = [] then []
            else '' WHERE '' @ str_join '' AND ''
                   (map (\<lambda>k. k @ '' = ?'') (map fst (remaining [''table'', ''options''] kwargs)))),
       map snd (remaining [''table'', ''options''] kwargs))]"
  using assms
  by (auto simp add: SQLiteManager_select_def Let_def split_beta snd_pop remaining_remaining
      comp_def split: option.splits)

section \<open>What the handlers do\<close>

lemma get_user_cases:
  assumes "SQLiteManager_select drv [(''table'', PStr ''users''), (''id'', PInt user_id)] db = (r, db1)"
  shows "fst (get_user drv vld db user_id) =
     (case r of
        Inl e \<Rightarrow> Inl e
      | Inr [] \<Rightarrow> Inl (HTTPException 404 ''User not found'')
      | Inr (result # rest) \<Rightarrow>
          if length result < 3 then Inl IndexError
          else User_init vld (result ! 0) (result ! 1) (result ! 2))"
proof (cases r)
  case (Inl e)
  have "e \<noteq> IndexError"
    using select_never_IndexError [of drv "[(''table'', PStr ''users''), (''id'', PInt user_id)]" db]
      assms Inl by auto
  then have "except_IndexError (HTTPException 404 ''User not found'') e = e"
    by (cases e) simp_all
  with assms Inl show ?thesis by (simp add: get_user_def)
next
  case (Inr rows)
  with assms show ?thesis
    by (cases rows) (simp_all add: get_user_def tuple_get_def)
qed

lemma get_password_cases:
  assumes "SQLiteManager_select drv [(''table'', PStr ''passwords''), (''id'', PInt password_id)] db
             = (r, db1)"
  shows "fst (get_password drv vld db password_id) =
     (case r of
        Inl e \<Rightarrow> Inl e
      | Inr [] \<Rightarrow> Inl (HTTPException 404 ''password not found'')
      | Inr (result # rest) \<Rightarrow>
          if length result < 3 then Inl IndexError
          else Password_init vld (result ! 0) (result ! 1) (result ! 2))"
proof (cases r)
  case (Inl e)
  have "e \<noteq> IndexError"
    using select_never_IndexError
      [of drv "[(''table'', PStr ''passwords''), (''id'', PInt password_id)]" db]
      assms Inl by auto
  then have "except_IndexError (HTTPException 404 ''password not found'') e = e"
    by (cases e) simp_all
  with assms Inl show ?thesis by (simp add: get_password_def)
next
  case (Inr rows)
  with assms show ?thesis
    by (cases rows) (simp_all add: get_password_def tuple_get_def)
qed

lemma User_init_not_HTTPException: "User_init vld a b c \<noteq> Inl (HTTPException code detail)"
  by (simp add: User_init_def split: option.splits)

lemma Password_init_not_HTTPException: "Password_init vld a b c \<noteq> Inl (HTTPException code detail)"
  by (simp add: Password_init_def split: option.splits)

section \<open>What the modelled store does\<close>

subsection \<open>The words of a statement\<close>

lemma split_on_not_Nil [simp]: "split_on c s \<noteq> []"
  by (induction s) (auto split: list.splits)

lemma split_on_sep: "split_on c (a @ c # b) = split_on c a @ split_on c b"
proof (induction a)
  case Nil
  show ?case by simp
next
  case (Cons x a)
  obtain w ws where "split_on c a = w # ws"
    by (cases "split_on c a") simp_all
  with Cons show ?case by simp
qed

lemma split_on_word: "c \<notin> set w \<Longrightarrow> split_on c w = [w]"
  by (induction w) auto

lemma str_join_Cons: "ys \<noteq> [] \<Longrightarrow> str_join sep (x # ys) = x @ sep @ str_join sep ys"
  by (cases ys) simp_all


lemma split_unwords:
  "ws \<noteq> [] \<Longrightarrow> \<forall>w\<in>set ws. c \<notin> set w \<Longrightarrow> split_on c (str_join [c] ws) = ws"
proof (induction ws)
  case Nil
  then show ?case by simp
next
  case (Cons w ws)
  show ?case
  proof (cases ws)
    case Nil
    with Cons.prems show ?thesis by (simp add: split_on_word)
  next
    case (Cons v vs)
    then have "str_join [c] (w # ws) = w @ c # str_join [c] ws" by simp
    with Cons.IH Cons.prems Cons show ?thesis
      by (simp add: split_on_sep split_on_word del: str_join.simps)
  qed
qed

lemma cond_words_not_Nil [simp]: "cond_words ks = [] \<longleftrightarrow> ks = []"
  by (induction ks rule: cond_words.induct) simp_all

lemma cond_words_text:
  "ks \<noteq> [] \<Longrightarrow>
     str_join '' AND '' (map (\<lambda>k. k @ '' = ?'') ks) = str_join '' '' (cond_words ks)"
  by (induction ks rule: cond_words.induct) (simp_all add: str_join_Cons)

lemma cond_words_spaceless:
  "\<forall>k\<in>set ks. CHR '' '' \<notin> set k \<Longrightarrow> \<forall>w\<in>set (cond_words ks). CHR '' '' \<notin> set w"
  by (induction ks rule: cond_words.induct) simp_all

lemma parse_conds_cond_words: "ks \<noteq> [] \<Longrightarrow> parse_conds (cond_words ks) = Some ks"
  by (induction ks rule: cond_words.induct) simp_all

lemma list_words_not_Nil [simp]: "list_words p cs s \<noteq> []"
  by (induction p cs s rule: list_words.induct) simp_all







lemma parse_select_text:
  assumes "CHR '' '' \<notin> set t" and "fs \<noteq> []" and "\<forall>k\<in>set (map fst fs). CHR '' '' \<notin> set k"
  shows "parse (split_on CHR '' ''
           (''SELECT * FROM '' @ t @ '' WHERE ''
              @ str_join '' AND '' (map (\<lambda>kv. fst kv @ '' = ?'') fs)))
         = Some (SelectFrom [''*''] t (map fst fs))"
proof -
  let ?ks = "map fst fs"
  let ?ws = "''SELECT'' # ''*'' # ''FROM'' # t # ''WHERE'' # cond_words ?ks"
  have ks: "?ks \<noteq> []" using assms(2) by simp
  have "str_join '' AND '' (map (\<lambda>kv. fst kv @ '' = ?'') fs) = str_join '' '' (cond_words ?ks)"
    using cond_words_text [OF ks] by (simp add: comp_def)
  then have "''SELECT * FROM '' @ t @ '' WHERE ''
               @ str_join '' AND '' (map (\<lambda>kv. fst kv @ '' = ?'') fs)
             = str_join '' '' ?ws"
    using ks by (simp add: str_join_Cons)
  moreover have "split_on CHR '' '' (str_join '' '' ?ws) = ?ws"
    using assms(1) cond_words_spaceless [OF assms(3)]
    by (intro split_unwords) simp_all
  moreover have "parse ?ws = Some (SelectFrom [''*''] t ?ks)"
  proof (cases "cond_words ?ks")
    case Nil
    with ks show ?thesis by simp
  next
    case (Cons w ws)
    with parse_conds_cond_words [OF ks] show ?thesis
      by (simp add: parse_def column_names_def)
  qed
  ultimately show ?thesis by simp
qed


subsection \<open>The answers of the store\<close>

lemma select_result:
  assumes "map_of kwargs ''table'' = Some table" and "truthy table"
    and "py_join '', '' (case map_of kwargs ''options'' of None \<Rightarrow> PList [PStr ''*''] | Some v \<Rightarrow> v)
           = Some cols"
    and "remaining [''table'', ''options''] kwargs = filters"
  shows "SQLiteManager_select drv kwargs m =
     (let query = ''SELECT '' @ cols @ '' FROM '' @ py_str table
                    @ (if filters = [] then []
                       else '' WHERE '' @ str_join '' AND '' (map (\<lambda>kv. fst kv @ '' = ?'') filters));
          params = map snd filters
      in case cur_execute drv (conn m) query params of
           (Some e, db1) \<Rightarrow>
             (Inl (StoreError e), m\<lparr>conn := db1, calls := calls m @ [Execute query params]\<rparr>)
         | (None, db1) \<Rightarrow>
             (Inr (fst (cur_fetchall drv db1)),
              m\<lparr>conn := snd (cur_fetchall drv db1),
                calls := calls m @ [Execute query params, Fetchall]\<rparr>))"
  using assms
  by (simp add: SQLiteManager_select_def pop_eq map_of_remaining remaining_remaining Let_def
      split_beta split: prod.split option.split)

lemma matches_iff: "matches tb conds r \<longleftrightarrow> (\<forall>(k, v)\<in>set conds. cell tb r k = Some v)"
  by (auto simp add: matches_def list_all_iff)

lemma matches_eq: "matches tb conds = (\<lambda>r. \<forall>(k, v)\<in>set conds. cell tb r k = Some v)"
  by (simp add: fun_eq_iff matches_iff)

lemma project_all [simp]: "map (project tb [''*'']) rs = rs"
  by (induction rs) (simp_all add: project_def)

lemma store_select_all_columns:
  assumes "st_tables db t = Some tb" and "\<forall>k\<in>set (map fst fs). k \<in> set (tbl_columns tb)"
  shows "store_select db [''*''] t (map fst fs) (map snd fs)
         = (None, db\<lparr>st_result := filter (matches tb fs) (tbl_rows tb), st_rowcount := - 1\<rparr>)"
  using assms
  by (simp add: store_select_def list_all_iff project_def zip_map_fst_snd)




lemma select_by_filters:
  assumes "map_of kwargs ''table'' = Some (PStr t)" and "t \<noteq> []" and "CHR '' '' \<notin> set t"
    and "map_of kwargs ''options'' = None"
    and "remaining [''table'', ''options''] kwargs = filters" and "filters \<noteq> []"
    and "\<forall>k\<in>set (map fst filters). CHR '' '' \<notin> set k \<and> k \<in> set (tbl_columns tb)"
    and "st_tables (conn m) t = Some tb"
  shows "fst (SQLiteManager_select sqlite kwargs m)
           = Inr (filter (\<lambda>r. \<forall>(k, v)\<in>set filters. cell tb r k = Some v) (tbl_rows tb))"
proof -
  let ?q = "''SELECT * FROM '' @ t @ '' WHERE ''
              @ str_join '' AND '' (map (\<lambda>kv. fst kv @ '' = ?'') filters)"
  have "parse (split_on CHR '' '' ?q) = Some (SelectFrom [''*''] t (map fst filters))"
    using assms(3,6,7) by (intro parse_select_text) simp_all
  then have "store_execute (conn m) ?q (map snd filters)
      = (None, (conn m)\<lparr>st_result := filter (matches tb filters) (tbl_rows tb),
                        st_rowcount := - 1\<rparr>)"
    using assms(7,8) by (simp add: store_execute_def store_select_all_columns)
  moreover have "filter (matches tb filters) (tbl_rows tb)
      = filter (\<lambda>r. \<forall>(k, v)\<in>set filters. cell tb r k = Some v) (tbl_rows tb)"
    by (simp add: matches_eq)
  ultimately show ?thesis
    using assms(2,6)
    by (simp add: select_result [OF assms(1) _ _ assms(5), of "''*''"] assms(4) sqlite_def)
qed


section \<open>Properties\<close>

text \<open>
  C1 (as amended).  \<open>update\<close> called with a table and a non-empty data mapping and no
  filter, and \<open>delete\<close> called with a table and no filter, raise a validation error
  before any call is made on the cursor or the connection, and the manager is left as
  it was.  The error is the unsafe-operation error when the table is truthy; when the
  table is falsy the check of the table comes first and the error is the
  table-required error.
\<close>

theorem unfiltered_update_delete_rejected:
  assumes "map_of kwu ''table'' = Some table" and "map_of kwu ''data'' = Some (PDict d)"
    and "d \<noteq> []" and "remaining [''table'', ''data''] kwu = []"
    and "map_of kwd ''table'' = Some table" and "remaining [''table''] kwd = []"
  shows "SQLiteManager_update drv kwu m
           = (Inl (ValueError (if truthy table then UpdateWithoutWhere else TableRequired Update)), m)
       \<and> SQLiteManager_delete drv kwd m
           = (Inl (ValueError (if truthy table then DeleteWithoutWhere else TableRequired Delete)), m)"
  using assms
  by (simp add: SQLiteManager_update_def SQLiteManager_delete_def pop_eq map_of_remaining
      remaining_remaining Let_def)

theorem unfiltered_update_delete_rejected_witness:
  "SQLiteManager_update (scripted None []) [(''table'', PStr ''users''), (''data'', PDict [(''name'', PStr ''Bob'')])] fresh
     = (Inl (ValueError UpdateWithoutWhere), fresh)
   \<and> SQLiteManager_delete (scripted None []) [(''table'', PStr ''users'')] fresh
     = (Inl (ValueError DeleteWithoutWhere), fresh)"
  using unfiltered_update_delete_rejected [of "[(''table'', PStr ''users''), (''data'', PDict [(''name'', PStr ''Bob'')])]"
     "PStr ''users''" "[(''name'', PStr ''Bob'')]" "[(''table'', PStr ''users'')]" "scripted None []" fresh]
  by (simp add: remaining_def)

text \<open>
  With the empty string as table, \<open>update\<close> and \<open>delete\<close> without a filter do not
  raise the unsafe-operation error: the table-required error is raised.
\<close>

theorem unfiltered_update_empty_table_counterexample:
  "SQLiteManager_update (scripted None []) [(''table'', PStr ''''), (''data'', PDict [(''a'', PInt 1)])] fresh
     = (Inl (ValueError (TableRequired Update)), fresh)
   \<and> SQLiteManager_update (scripted None []) [(''table'', PStr ''''), (''data'', PDict [(''a'', PInt 1)])] fresh
     \<noteq> (Inl (ValueError UpdateWithoutWhere), fresh)
   \<and> SQLiteManager_delete (scripted None []) [(''table'', PStr '''')] fresh
     \<noteq> (Inl (ValueError DeleteWithoutWhere), fresh)"
  by (simp add: SQLiteManager_update_def SQLiteManager_delete_def pop_def Let_def)

text \<open>
  C2.  On exit of the scoped block a commit is issued on every path; a rollback is
  issued exactly when an exception left the block, and then it comes before the commit.
\<close>

theorem exit_rollback_then_commit:
  "calls (SQLiteManager_exit drv exc_type m)
     = calls m @ (if exc_type = None then [Commit] else [Rollback, Commit])
   \<and> conn (SQLiteManager_exit drv exc_type m)
     = conn_commit drv (if exc_type = None then conn m else conn_rollback drv (conn m))"
  by (simp add: SQLiteManager_exit_def Let_def)

theorem exit_rollback_then_commit_witness:
  "calls (SQLiteManager_exit (scripted None []) (Some (StoreError ''locked'')) fresh) = [Rollback, Commit]
   \<and> calls (SQLiteManager_exit (scripted None []) None fresh) = [Commit]"
  using exit_rollback_then_commit [of "scripted None []" "Some (StoreError ''locked'')" fresh]
    exit_rollback_then_commit [of "scripted None []" None fresh]
  by (simp add: fresh_def)

text \<open>
  C3.  For \<open>update\<close> with a non-empty data mapping and a non-empty filter mapping,
  the only statement passed to the store has as bound parameters the data values in
  the data's key order followed by the filter values in the filters' key order; for
  \<open>data={"a":1,"b":2}\<close> and \<open>filters={"id":5}\<close> that is \<open>(1, 2, 5)\<close>.  This holds
  whatever the table is: with a falsy table no statement is passed at all.
\<close>

theorem update_parameter_order:
  assumes "map_of kwargs ''table'' = Some table"
    and "map_of kwargs ''data'' = Some (PDict d)" and "d \<noteq> []"
    and "remaining [''table'', ''data''] kwargs = filters" and "filters \<noteq> []"
  shows "executed (new_calls m (snd (SQLiteManager_update drv kwargs m))) =
     (if truthy table
      then [(''UPDATE '' @ py_str table @ '' SET ''
               @ str_join '', '' (map (\<lambda>kv. fst kv @ '' = ?'') d)
               @ '' WHERE '' @ str_join '' AND '' (map (\<lambda>kv. fst kv @ '' = ?'') filters),
             map snd d @ map snd filters)]
      else [])"
proof (cases "truthy table")
  case True
  show ?thesis
    unfolding update_run [OF assms(1) True assms(2-5)]
    using True by (simp add: Let_def split: prod.split option.split)
next
  case False
  then have "snd (SQLiteManager_update drv kwargs m) = m"
    using assms(1) by (intro update_refused) (simp add: pop_eq)
  with False show ?thesis by simp
qed

theorem update_parameter_order_witness:
  "executed (new_calls fresh (snd (SQLiteManager_update (scripted None [])
      [(''table'', PStr ''t''), (''data'', PDict [(''a'', PInt 1), (''b'', PInt 2)]), (''id'', PInt 5)]
      fresh)))
   = [(''UPDATE t SET a = ?, b = ? WHERE id = ?'', [PInt 1, PInt 2, PInt 5])]"
  using update_parameter_order [of
      "[(''table'', PStr ''t''), (''data'', PDict [(''a'', PInt 1), (''b'', PInt 2)]), (''id'', PInt 5)]"
      "PStr ''t''" "[(''a'', PInt 1), (''b'', PInt 2)]" "[(''id'', PInt 5)]" fresh "scripted None []"]
  by (simp add: remaining_def)

text \<open>
  C4.  Two calls of \<open>select\<close> with the same table, the same options and the same
  filter keys execute statements with the same text, whatever the filter values are
  (and whatever the store answers).  The filter values are exactly the bound
  parameters, and the text has one \<open>key = ?\<close> per filter, joined by \<open>AND\<close>.
\<close>

theorem select_statement_independent_of_filter_values:
  fixes drv1 :: "('db1, 'x1) driver" and drv2 :: "('db2, 'x2) driver"
  defines "filters \<equiv> remaining [''table'', ''options'']"
  assumes "map fst kw1 = map fst kw2"
    and "map_of kw1 ''table'' = map_of kw2 ''table''"
    and "map_of kw1 ''options'' = map_of kw2 ''options''"
  shows "statements (new_calls m1 (snd (SQLiteManager_select drv1 kw1 m1)))
           = statements (new_calls m2 (snd (SQLiteManager_select drv2 kw2 m2)))
       \<and> (\<forall>q ps. (q, ps) \<in> set (executed (new_calls m1 (snd (SQLiteManager_select drv1 kw1 m1))))
            \<longrightarrow> ps = map snd (filters kw1)
              \<and> (\<exists>cols. q = ''SELECT '' @ cols @ '' FROM '' @ py_str (fst (pop ''table'' PNone kw1))
                    @ (if filters kw1 = [] then []
                       else '' WHERE '' @ str_join '' AND ''
                              (map (\<lambda>k. k @ '' = ?'') (map fst (filters kw1))))))"
proof -
  let ?table = "\<lambda>kw. fst (pop ''table'' PNone kw)"
  let ?options = "\<lambda>kw. fst (pop ''options'' (PList [PStr ''*'']) (snd (pop ''table'' PNone kw)))"
  have table: "?table kw1 = ?table kw2"
    using assms(3) by (simp add: fst_pop)
  have options: "?options kw1 = ?options kw2"
    using assms(4) by (simp add: fst_pop snd_pop map_of_remaining)
  have keys: "map fst (filters kw1) = map fst (filters kw2)"
    unfolding filters_def using assms(2) by (rule keys_remaining)
  then have empty: "filters kw1 = [] \<longleftrightarrow> filters kw2 = []"
    by (metis map_is_Nil_conv)
  show ?thesis
  proof (cases "truthy (?table kw1)")
    case False
    then have "snd (SQLiteManager_select drv1 kw1 m1) = m1"
      and "snd (SQLiteManager_select drv2 kw2 m2) = m2"
      using table by (simp_all add: select_refused)
    then show ?thesis by (simp add: statements_def)
  next
    case True
    show ?thesis
    proof (cases "py_join '', '' (?options kw1)")
      case None
      then have "snd (SQLiteManager_select drv1 kw1 m1) = m1"
        and "snd (SQLiteManager_select drv2 kw2 m2) = m2"
        using options by (simp_all add: select_refused)
      then show ?thesis by (simp add: statements_def)
    next
      case (Some cols)
      have "truthy (?table kw2)" and "py_join '', '' (?options kw2) = Some cols"
        using True Some table options by simp_all
      then show ?thesis
        using keys empty table
        by (simp add: select_run [OF True Some] select_run [of kw2 cols] statements_def
            filters_def)
    qed
  qed
qed

theorem select_statement_independent_of_filter_values_witness:
  "statements (new_calls fresh (snd (SQLiteManager_select (scripted None [])
      [(''table'', PStr ''users''), (''name'', PStr ''x'; DROP TABLE users;--'')] fresh)))
   = statements (new_calls fresh (snd (SQLiteManager_select (scripted None [])
      [(''table'', PStr ''users''), (''name'', PStr ''Alice'')] fresh)))
   \<and> executed (new_calls fresh (snd (SQLiteManager_select (scripted None [])
      [(''table'', PStr ''users''), (''name'', PStr ''x'; DROP TABLE users;--'')] fresh)))
   = [(''SELECT * FROM users WHERE name = ?'', [PStr ''x'; DROP TABLE users;--''])]"
  using select_statement_independent_of_filter_values
      [of "[(''table'', PStr ''users''), (''name'', PStr ''x'; DROP TABLE users;--'')]"
        "[(''table'', PStr ''users''), (''name'', PStr ''Alice'')]"
        fresh "scripted None []" fresh "scripted None []"]
  by (simp add: SQLiteManager_select_def pop_def scripted_def fresh_def new_calls_def
      statements_def remaining_def Let_def)

text \<open>
  C5.  On the modelled store, \<open>select\<close> with a table of the store and a non-empty
  filter mapping on columns of the table returns exactly the rows of the table that
  hold, in every filter's column, the filter's value (all of the constraints at once:
  \<open>AND\<close>, not \<open>OR\<close>), in the order of the table; when no row matches, that is the
  empty list and not an error.  Table and column names are words without a space.
\<close>

theorem select_returns_matching_rows:
  assumes "map_of kwargs ''table'' = Some (PStr t)" and "t \<noteq> []" and "CHR '' '' \<notin> set t"
    and "map_of kwargs ''options'' = None"
    and "remaining [''table'', ''options''] kwargs = filters" and "filters \<noteq> []"
    and "\<forall>k\<in>set (map fst filters). CHR '' '' \<notin> set k \<and> k \<in> set (tbl_columns tb)"
    and "st_tables (conn m) t = Some tb"
  shows "fst (SQLiteManager_select sqlite kwargs m)
           = Inr (filter (\<lambda>r. \<forall>(k, v)\<in>set filters. cell tb r k = Some v) (tbl_rows tb))
       \<and> ((\<forall>r\<in>set (tbl_rows tb). \<exists>(k, v)\<in>set filters. cell tb r k \<noteq> Some v)
            \<longrightarrow> fst (SQLiteManager_select sqlite kwargs m) = Inr [])"
proof -
  have rows: "fst (SQLiteManager_select sqlite kwargs m)
      = Inr (filter (\<lambda>r. \<forall>(k, v)\<in>set filters. cell tb r k = Some v) (tbl_rows tb))"
    using assms by (rule select_by_filters)
  moreover have "filter (\<lambda>r. \<forall>(k, v)\<in>set filters. cell tb r k = Some v) (tbl_rows tb) = []"
    if "\<forall>r\<in>set (tbl_rows tb). \<exists>(k, v)\<in>set filters. cell tb r k \<noteq> Some v"
    using that by (fastforce simp add: filter_empty_conv)
  ultimately show ?thesis by simp
qed

theorem select_returns_matching_rows_witness:
  "fst (SQLiteManager_select sqlite
          [(''table'', PStr ''users''), (''name'', PStr ''Alice''), (''email'', PStr ''c@x.com'')]
          (opened demo_tables))
     = Inr [[PInt 3, PStr ''Alice'', PStr ''c@x.com'']]
   \<and> fst (SQLiteManager_select sqlite [(''table'', PStr ''users''), (''name'', PStr ''Alice'')]
          (opened demo_tables))
     = Inr [[PInt 1, PStr ''Alice'', PStr ''a@x.com''], [PInt 3, PStr ''Alice'', PStr ''c@x.com'']]
   \<and> fst (SQLiteManager_select sqlite [(''table'', PStr ''users''), (''name'', PStr ''Zed'')]
          (opened demo_tables))
     = Inr []"
  using select_returns_matching_rows
      [of "[(''table'', PStr ''users''), (''name'', PStr ''Alice''), (''email'', PStr ''c@x.com'')]"
        "''users''" "[(''name'', PStr ''Alice''), (''email'', PStr ''c@x.com'')]"
        "the (demo_tables ''users'')" "opened demo_tables"]
    select_returns_matching_rows
      [of "[(''table'', PStr ''users''), (''name'', PStr ''Alice'')]"
        "''users''" "[(''name'', PStr ''Alice'')]"
        "the (demo_tables ''users'')" "opened demo_tables"]
    select_returns_matching_rows
      [of "[(''table'', PStr ''users''), (''name'', PStr ''Zed'')]"
        "''users''" "[(''name'', PStr ''Zed'')]"
        "the (demo_tables ''users'')" "opened demo_tables"]
  by (simp add: remaining_def opened_def demo_tables_def cell_def)



text \<open>
  C7.  \<open>insert\<close> called with a table and no data field raises a validation error
  and leaves the manager as it was, for every value of the table.  With a table name
  (a truthy table) and data, the one statement it executes lists the data keys as
  columns, with one placeholder for each, and binds the data values in the same
  order; when the store accepts it, the result is the cursor's \<open>lastrowid\<close>.
\<close>

theorem insert_validation_and_statement:
  fixes drv :: "('db, 'x) driver"
  defines "query table data \<equiv>
     ''INSERT INTO '' @ py_str table @ '' ('' @ str_join '', '' (map fst data)
       @ '') VALUES ('' @ str_join '', '' (replicate (length data) ''?'') @ '')''"
  assumes "map_of kwargs ''table'' = Some table" and "remaining [''table''] kwargs = data"
  shows "(data = [] \<longrightarrow>
            SQLiteManager_insert drv kwargs m
              = (Inl (ValueError (if truthy table then NoInsertData else TableRequired Insert)), m))
       \<and> (truthy table \<and> data \<noteq> [] \<longrightarrow>
            executed (new_calls m (snd (SQLiteManager_insert drv kwargs m)))
              = [(query table data, map snd data)]
          \<and> (fst (cur_execute drv (conn m) (query table data) (map snd data)) = None \<longrightarrow>
               fst (SQLiteManager_insert drv kwargs m)
                 = Inr (cur_lastrowid drv
                     (snd (cur_execute drv (conn m) (query table data) (map snd data))))))"
proof (intro conjI impI)
  assume "data = []"
  with assms(2,3) show "SQLiteManager_insert drv kwargs m
      = (Inl (ValueError (if truthy table then NoInsertData else TableRequired Insert)), m)"
    by (simp add: SQLiteManager_insert_def pop_eq Let_def)
next
  assume "truthy table \<and> data \<noteq> []"
  then have run: "truthy table" "data \<noteq> []" by simp_all
  show "executed (new_calls m (snd (SQLiteManager_insert drv kwargs m)))
      = [(query table data, map snd data)]"
    unfolding insert_run [OF assms(2) run(1) assms(3) run(2)] query_def
    by (simp add: Let_def split: prod.split option.split)
next
  assume "truthy table \<and> data \<noteq> []"
  then have run: "truthy table" "data \<noteq> []" by simp_all
  assume "fst (cur_execute drv (conn m) (query table data) (map snd data)) = None"
  then show "fst (SQLiteManager_insert drv kwargs m)
      = Inr (cur_lastrowid drv (snd (cur_execute drv (conn m) (query table data) (map snd data))))"
    unfolding insert_run [OF assms(2) run(1) assms(3) run(2)] query_def
    by (auto simp add: Let_def split: prod.split option.split)
qed

theorem insert_validation_and_statement_witness:
  "SQLiteManager_insert (scripted None []) [(''table'', PStr ''t'')] fresh
     = (Inl (ValueError NoInsertData), fresh)
   \<and> SQLiteManager_insert (scripted None [])
        [(''table'', PStr ''users''), (''name'', PStr ''Alice''), (''email'', PStr ''a@x.com'')] fresh
     = (Inr (PInt 1),
        \<lparr>conn = 1,
         calls = [Execute ''INSERT INTO users (name, email) VALUES (?, ?)''
                    [PStr ''Alice'', PStr ''a@x.com'']]\<rparr>)"
  using insert_validation_and_statement [of "[(''table'', PStr ''t'')]" "PStr ''t''" "[]"
      "scripted None []" fresh]
    insert_validation_and_statement
      [of "[(''table'', PStr ''users''), (''name'', PStr ''Alice''), (''email'', PStr ''a@x.com'')]"
        "PStr ''users''" "[(''name'', PStr ''Alice''), (''email'', PStr ''a@x.com'')]"
        "scripted None []" fresh]
  by (simp add: SQLiteManager_insert_def pop_def remaining_def scripted_def fresh_def Let_def)




text \<open>
  C9.  A get-by-id handler answers 404 (detail "User not found", "password not found")
  if and only if the \<open>select\<close> for the id returns the empty list.  An exception of
  \<open>select\<close> leaves the handler as it is, never as a 404.  Otherwise the first row is
  mapped by position: \<open>(id, name, email)\<close> for a user,
  \<open>(id, password_hash, user_id)\<close> for a password (for a row of the table's three
  columns whose values the record accepts).
\<close>

theorem get_by_id_not_found_iff_empty:
  fixes drv :: "('db, 'x) driver"
  defines "user_rows db user_id \<equiv>
     fst (SQLiteManager_select drv [(''table'', PStr ''users''), (''id'', PInt user_id)] db)"
    and "password_rows db password_id \<equiv>
     fst (SQLiteManager_select drv [(''table'', PStr ''passwords''), (''id'', PInt password_id)] db)"
  shows "(fst (get_user drv vld db i) = Inl (HTTPException 404 ''User not found'')
            \<longleftrightarrow> user_rows db i = Inr [])
       \<and> (\<forall>e. user_rows db i = Inl e \<longrightarrow> fst (get_user drv vld db i) = Inl e)
       \<and> (\<forall>result rest u n e.
             user_rows db i = Inr (result # rest) \<and> 3 \<le> length result
             \<and> int_field vld (result ! 0) = Some u \<and> str_field vld (result ! 1) = Some n
             \<and> str_field vld (result ! 2) = Some e
             \<longrightarrow> fst (get_user drv vld db i)
                   = Inr \<lparr>User_id = u, User_name = n, User_email = e\<rparr>)
       \<and> (fst (get_password drv vld db i) = Inl (HTTPException 404 ''password not found'')
            \<longleftrightarrow> password_rows db i = Inr [])
       \<and> (\<forall>e. password_rows db i = Inl e \<longrightarrow> fst (get_password drv vld db i) = Inl e)
       \<and> (\<forall>result rest u h p.
             password_rows db i = Inr (result # rest) \<and> 3 \<le> length result
             \<and> int_field vld (result ! 0) = Some u \<and> str_field vld (result ! 1) = Some h
             \<and> int_field vld (result ! 2) = Some p
             \<longrightarrow> fst (get_password drv vld db i)
                   = Inr \<lparr>Password_id = u, Password_user_id = p, Password_password_hash = h\<rparr>)"
proof -
  obtain r db1 where sel:
    "SQLiteManager_select drv [(''table'', PStr ''users''), (''id'', PInt i)] db = (r, db1)"
    by (cases "SQLiteManager_select drv [(''table'', PStr ''users''), (''id'', PInt i)] db")
  obtain r' db1' where sel':
    "SQLiteManager_select drv [(''table'', PStr ''passwords''), (''id'', PInt i)] db = (r', db1')"
    by (cases "SQLiteManager_select drv [(''table'', PStr ''passwords''), (''id'', PInt i)] db")
  have no_http: "r \<noteq> Inl (HTTPException code detail)" "r' \<noteq> Inl (HTTPException code detail)"
    for code detail
    using select_never_IndexError [of drv "[(''table'', PStr ''users''), (''id'', PInt i)]" db]
      select_never_IndexError [of drv "[(''table'', PStr ''passwords''), (''id'', PInt i)]" db]
      sel sel' by auto
  have user: "fst (get_user drv vld db i) = Inl (HTTPException 404 ''User not found'')
      \<longleftrightarrow> r = Inr []"
    using no_http(1) [of 404 "''User not found''"]
    by (auto simp add: get_user_cases [OF sel] User_init_not_HTTPException
        split: sum.splits list.splits)
  have password: "fst (get_password drv vld db i) = Inl (HTTPException 404 ''password not found'')
      \<longleftrightarrow> r' = Inr []"
    using no_http(2) [of 404 "''password not found''"]
    by (auto simp add: get_password_cases [OF sel'] Password_init_not_HTTPException
        split: sum.splits list.splits)
  show ?thesis
    unfolding user_rows_def password_rows_def
    using user password
    by (auto simp add: sel sel' get_user_cases [OF sel] get_password_cases [OF sel']
        User_init_def Password_init_def)
qed

theorem get_by_id_not_found_iff_empty_witness:
  "fst (get_user (scripted None []) strict fresh 999) = Inl (HTTPException 404 ''User not found'')
   \<and> fst (get_user (scripted None [[PInt 1, PStr ''Alice'', PStr ''a@x.com'']]) strict fresh 1)
       = Inr \<lparr>User_id = 1, User_name = ''Alice'', User_email = ''a@x.com''\<rparr>
   \<and> fst (get_user (scripted (Some ''database is locked'') []) strict fresh 999)
       = Inl (StoreError ''database is locked'')
   \<and> fst (get_password (scripted None []) strict fresh 999)
       = Inl (HTTPException 404 ''password not found'')
   \<and> fst (get_password (scripted None [[PInt 1, PStr ''$2b$12$abc'', PInt 7]]) strict fresh 1)
       = Inr \<lparr>Password_id = 1, Password_user_id = 7, Password_password_hash = ''$2b$12$abc''\<rparr>"
  using get_by_id_not_found_iff_empty [of "scripted None []" strict fresh 999]
    get_by_id_not_found_iff_empty
      [of "scripted None [[PInt 1, PStr ''Alice'', PStr ''a@x.com'']]" strict fresh 1]
    get_by_id_not_found_iff_empty [of "scripted (Some ''database is locked'') []" strict fresh 999]
    get_by_id_not_found_iff_empty
      [of "scripted None [[PInt 1, PStr ''$2b$12$abc'', PInt 7]]" strict fresh 1]
  by (simp add: SQLiteManager_select_def pop_def scripted_def fresh_def strict_def Let_def)

text \<open>
  C10.  In all four operations a table argument that is absent or falsy (the empty
  string, \<open>None\<close>, \<open>0\<close>, ...) raises the table-required validation error of the
  operation, the same as when the argument is omitted, before any statement is built
  or executed: the manager is left as it was.
\<close>

theorem falsy_table_rejected:
  assumes "case map_of kwargs ''table'' of None \<Rightarrow> True | Some v \<Rightarrow> \<not> truthy v"
  shows "SQLiteManager_select drv kwargs m = (Inl (ValueError (TableRequired Select)), m)
       \<and> SQLiteManager_insert drv kwargs m = (Inl (ValueError (TableRequired Insert)), m)
       \<and> SQLiteManager_update drv kwargs m = (Inl (ValueError (TableRequired Update)), m)
       \<and> SQLiteManager_delete drv kwargs m = (Inl (ValueError (TableRequired Delete)), m)"
proof -
  have falsy: "\<not> truthy (fst (pop ''table'' PNone kwargs))"
    using assms by (simp add: fst_pop split: option.splits)
  have "SQLiteManager_select drv kwargs m = (Inl (ValueError (TableRequired Select)), m)"
    using falsy by (simp add: SQLiteManager_select_def Let_def split_beta)
  moreover have "SQLiteManager_insert drv kwargs m = (Inl (ValueError (TableRequired Insert)), m)"
    using falsy by (simp add: SQLiteManager_insert_def Let_def split_beta)
  moreover have "SQLiteManager_update drv kwargs m = (Inl (ValueError (TableRequired Update)), m)"
    using falsy by (simp add: SQLiteManager_update_def Let_def split_beta)
  moreover have "SQLiteManager_delete drv kwargs m = (Inl (ValueError (TableRequired Delete)), m)"
    using falsy by (simp add: SQLiteManager_delete_def Let_def split_beta)
  ultimately show ?thesis by simp
qed

theorem falsy_table_rejected_witness:
  "SQLiteManager_select (scripted None []) [(''table'', PStr ''''), (''id'', PInt 1)] fresh
     = (Inl (ValueError (TableRequired Select)), fresh)
   \<and> SQLiteManager_insert (scripted None []) [(''table'', PInt 0), (''name'', PStr ''Alice'')] fresh
     = (Inl (ValueError (TableRequired Insert)), fresh)
   \<and> SQLiteManager_update (scripted None [])
        [(''table'', PNone), (''data'', PDict [(''a'', PInt 1)]), (''id'', PInt 5)] fresh
     = (Inl (ValueError (TableRequired Update)), fresh)
   \<and> SQLiteManager_delete (scripted None []) [(''id'', PInt 5)] fresh
     = (Inl (ValueError (TableRequired Delete)), fresh)"
  using falsy_table_rejected [of "[(''table'', PStr ''''), (''id'', PInt 1)]" "scripted None []" fresh]
    falsy_table_rejected [of "[(''table'', PInt 0), (''name'', PStr ''Alice'')]" "scripted None []" fresh]
    falsy_table_rejected [of "[(''table'', PNone), (''data'', PDict [(''a'', PInt 1)]), (''id'', PInt 5)]"
      "scripted None []" fresh]
    falsy_table_rejected [of "[(''id'', PInt 5)]" "scripted None []" fresh]
  by simp

end
